theory Spec2Isabelle
  imports Complex_Main
begin

section \<open>Conventions of the embedding\<close>

text \<open>
  The engine is TypeScript over a PostgreSQL store.  Amounts, prices and quantities are
  JavaScript numbers (and SQL DECIMAL columns); they are embedded as exact rationals
  (\<open>rat\<close>), so every arithmetic step of the source is the same step here without
  rounding.  A JavaScript \<open>Date\<close> is its \<open>getTime()\<close> value, an \<open>int\<close> of
  milliseconds.  A fiscal-year string \<open>"YYYY-YY"\<close> is represented by its start year;
  on such strings SQL's \<open>\<le>\<close> is \<open>\<le>\<close> on start years.  A database table is the
  list of its rows; a query is a function of that list, and a statement that writes
  returns the new list.
\<close>

section \<open>Errors, and what the schema makes the store refuse\<close>

text \<open>
  A \<open>throw\<close> of the source is a value of this type.  \<open>StatementRefused\<close> is the error
  of the database driver that a \<open>catch\<close> block rethrows unchanged.
\<close>

datatype error =
    RecommendationNotFoundOrAlreadyExecuted
  | HoldingNotFound
  | TransactionNotFound
  | RecommendationNotFound
  | FailedToCheckWashSale
  | StatementRefused

text \<open>The columns of the table \<open>transactions\<close>, as \<open>schema.sql\<close> creates it.\<close>

definition transactions_columns :: "string list" where
  "transactions_columns =
     [''transaction_id'', ''user_id'', ''holding_id'', ''asset_type'', ''asset_symbol'',
      ''transaction_type'', ''quantity'', ''price'', ''transaction_date'', ''fees'',
      ''platform'', ''notes'', ''created_at'']"

text \<open>
  The unique constraints of the table \<open>tax_reports\<close>, as \<open>schema.sql\<close> creates it: its
  primary key and nothing else (the index on user and fiscal year is not unique).
\<close>

definition tax_reports_unique :: "string list list" where
  "tax_reports_unique = [[''report_id'']]"

text \<open>PostgreSQL refuses a statement that names a column the table does not have.\<close>

definition columns_exist :: "string list \<Rightarrow> string list \<Rightarrow> bool" where
  "columns_exist table_columns named = list_all (\<lambda>c. c \<in> set table_columns) named"

text \<open>
  PostgreSQL refuses \<open>INSERT ... ON CONFLICT (columns)\<close>, whatever the data, unless a
  unique constraint of the table is on exactly these columns.
\<close>

definition conflict_target_ok :: "string list list \<Rightarrow> string list \<Rightarrow> bool" where
  "conflict_target_ok uniques target = list_ex (\<lambda>k. set k = set target) uniques"

section \<open>Regime comparator (taxcomparison service)\<close>

record deductions =
  section80C :: rat
  section80D :: rat
  homeLoanInterest :: rat
  nps :: rat
  other :: rat

record capitalGains =
  shortTermEquity :: rat
  longTermEquity :: rat
  shortTermCrypto :: rat
  longTermCrypto :: rat

record TaxRegimeInput =
  totalIncome :: rat
  deductions :: deductions
  capitalGains :: capitalGains

text \<open>
  \<open>effectiveRate\<close> and \<open>savingsPercentage\<close> are quotients; the source divides
  without a guard, so a zero divisor gives NaN or an infinity there.  They are \<open>None\<close>
  in that case.
\<close>

record RegimeCalculation =
  incomeTax :: rat
  surcharge :: rat
  cess :: rat
  capitalGainsTax :: rat
  totalTax :: rat
  deductionsUsed :: rat
  effectiveRate :: "rat option"

datatype regime = OLD | NEW

text \<open>The \<open>explanation\<close> string of the source's result is rendered text and is left out.\<close>

record TaxComparison =
  oldRegime :: RegimeCalculation
  newRegime :: RegimeCalculation
  recommendation :: regime
  savings :: rat
  savingsPercentage :: "rat option"

text \<open>A slab \<open>{ min, max, rate }\<close>; \<open>slab_max = None\<close> is the source's \<open>Infinity\<close>.\<close>

record slab =
  slab_min :: rat
  slab_max :: "rat option"
  slab_rate :: rat

definition mk_slab :: "rat \<Rightarrow> rat option \<Rightarrow> rat \<Rightarrow> slab" where
  "mk_slab lo hi r = \<lparr> slab_min = lo, slab_max = hi, slab_rate = r \<rparr>"

definition OLD_REGIME_SLABS :: "slab list" where
  "OLD_REGIME_SLABS =
     [ mk_slab 0 (Some 250000) 0,
       mk_slab 250000 (Some 500000) (5 / 100),
       mk_slab 500000 (Some 1000000) (20 / 100),
       mk_slab 1000000 None (30 / 100) ]"

definition NEW_REGIME_SLABS :: "slab list" where
  "NEW_REGIME_SLABS =
     [ mk_slab 0 (Some 300000) 0,
       mk_slab 300000 (Some 600000) (5 / 100),
       mk_slab 600000 (Some 900000) (10 / 100),
       mk_slab 900000 (Some 1200000) (15 / 100),
       mk_slab 1200000 (Some 1500000) (20 / 100),
       mk_slab 1500000 None (30 / 100) ]"

text \<open>\<open>Math.min(income, slab.max)\<close>, with \<open>Infinity\<close> as a possible bound.\<close>

definition min_upto :: "rat \<Rightarrow> rat option \<Rightarrow> rat" where
  "min_upto x hi = (case hi of None \<Rightarrow> x | Some m \<Rightarrow> min x m)"

text \<open>
  The body of \<open>calculateSlabTax\<close>'s \<open>for\<close> loop, run over the remaining slabs with the
  running \<open>tax\<close>.
\<close>

fun slab_loop :: "rat \<Rightarrow> slab list \<Rightarrow> rat \<Rightarrow> rat" where
  "slab_loop income [] tax = tax"
| "slab_loop income (s # ss) tax =
     slab_loop income ss
       (if income > slab_min s
        then tax + (min_upto income (slab_max s) - slab_min s) * slab_rate s
        else tax)"

definition calculateSlabTax :: "rat \<Rightarrow> slab list \<Rightarrow> rat" where
  "calculateSlabTax income slabs = slab_loop income slabs 0"

definition calculateCapitalGainsTax :: "capitalGains \<Rightarrow> rat" where
  "calculateCapitalGainsTax gains =
     (let tax0 = 0 + shortTermEquity gains * (20 / 100);
          ltEquityTaxable = max 0 (longTermEquity gains - 100000);
          tax1 = tax0 + ltEquityTaxable * (125 / 1000);
          tax2 = tax1 + (shortTermCrypto gains + longTermCrypto gains) * (30 / 100)
      in tax2)"

definition calculateSurcharge :: "rat \<Rightarrow> rat \<Rightarrow> rat" where
  "calculateSurcharge tax total_income =
     (if total_income \<le> 5000000 then 0
      else if total_income \<le> 10000000 then tax * (10 / 100)
      else if total_income \<le> 20000000 then tax * (15 / 100)
      else if total_income \<le> 50000000 then tax * (25 / 100)
      else tax * (37 / 100))"

definition getTotalCapitalGains :: "capitalGains \<Rightarrow> rat" where
  "getTotalCapitalGains gains =
     shortTermEquity gains + longTermEquity gains +
     shortTermCrypto gains + longTermCrypto gains"

text \<open>JavaScript's \<open>a / b\<close> where only a finite quotient is a value of the model.\<close>

definition js_div :: "rat \<Rightarrow> rat \<Rightarrow> rat option" where
  "js_div a b = (if b = 0 then None else Some (a / b))"

definition calculateOldRegime :: "TaxRegimeInput \<Rightarrow> RegimeCalculation" where
  "calculateOldRegime input =
     (let d = deductions input;
          totalDeductions =
            min (section80C d + section80D d + homeLoanInterest d + nps d + other d) 350000;
          taxableIncome = max 0 (totalIncome input - totalDeductions);
          incomeTax = calculateSlabTax taxableIncome OLD_REGIME_SLABS;
          capitalGainsTax = calculateCapitalGainsTax (capitalGains input);
          totalIncomeWithGains = totalIncome input + getTotalCapitalGains (capitalGains input);
          surcharge = calculateSurcharge incomeTax totalIncomeWithGains;
          cess = (incomeTax + surcharge) * (4 / 100);
          totalTax = incomeTax + surcharge + cess + capitalGainsTax
      in \<lparr> incomeTax = incomeTax, surcharge = surcharge, cess = cess,
           capitalGainsTax = capitalGainsTax, totalTax = totalTax,
           deductionsUsed = totalDeductions,
           effectiveRate =
             map_option (\<lambda>q. q * 100)
               (js_div totalTax
                  (totalIncome input + getTotalCapitalGains (capitalGains input))) \<rparr>)"

definition calculateNewRegime :: "TaxRegimeInput \<Rightarrow> RegimeCalculation" where
  "calculateNewRegime input =
     (let taxableIncome = totalIncome input;
          incomeTax = calculateSlabTax taxableIncome NEW_REGIME_SLABS;
          capitalGainsTax = calculateCapitalGainsTax (capitalGains input);
          totalIncomeWithGains = totalIncome input + getTotalCapitalGains (capitalGains input);
          surcharge = calculateSurcharge incomeTax totalIncomeWithGains;
          cess = (incomeTax + surcharge) * (4 / 100);
          totalTax = incomeTax + surcharge + cess + capitalGainsTax
      in \<lparr> incomeTax = incomeTax, surcharge = surcharge, cess = cess,
           capitalGainsTax = capitalGainsTax, totalTax = totalTax,
           deductionsUsed = 0,
           effectiveRate =
             map_option (\<lambda>q. q * 100)
               (js_div totalTax
                  (totalIncome input + getTotalCapitalGains (capitalGains input))) \<rparr>)"

definition compareRegimes :: "TaxRegimeInput \<Rightarrow> TaxComparison" where
  "compareRegimes input =
     (let old = calculateOldRegime input;
          new = calculateNewRegime input;
          sv = totalTax old - totalTax new;
          recm = (if totalTax old < totalTax new then OLD else NEW)
      in \<lparr> oldRegime = old, newRegime = new, recommendation = recm,
           savings = \<bar>sv\<bar>,
           savingsPercentage =
             map_option (\<lambda>q. q * 100) (js_div \<bar>sv\<bar> (max (totalTax old) (totalTax new))) \<rparr>)"

record QuickEstimate =
  qe_oldRegime :: rat
  qe_newRegime :: rat
  qe_recommendation :: regime

definition quickEstimate :: "rat \<Rightarrow> rat \<Rightarrow> QuickEstimate" where
  "quickEstimate income ded =
     (let input = \<lparr> totalIncome = income,
                     deductions = \<lparr> section80C = ded, section80D = 0, homeLoanInterest = 0,
                                    nps = 0, other = 0 \<rparr>,
                     capitalGains = \<lparr> shortTermEquity = 0, longTermEquity = 0,
                                      shortTermCrypto = 0, longTermCrypto = 0 \<rparr> \<rparr>;
          comparison = compareRegimes input
      in \<lparr> qe_oldRegime = totalTax (oldRegime comparison),
           qe_newRegime = totalTax (newRegime comparison),
           qe_recommendation = recommendation comparison \<rparr>)"

section \<open>Carry-forward ledger (carryforward service)\<close>

type_synonym fiscal_year = int

text \<open>
  The part of the JSON column \<open>report_data\<close> that the service reads back.  A missing
  key is \<open>None\<close>.
\<close>

record report_data =
  rd_sourceYear :: "fiscal_year option"
  rd_expiresIn :: "int option"

text \<open>A row of \<open>tax_reports\<close>.  The DECIMAL columns are nullable.\<close>

record tax_report =
  tr_user_id :: string
  tr_financial_year :: fiscal_year
  tr_report_type :: string
  tr_total_short_term_gains :: "rat option"
  tr_total_long_term_gains :: "rat option"
  tr_total_short_term_losses :: "rat option"
  tr_total_long_term_losses :: "rat option"
  tr_report_data :: "report_data option"
  tr_generated_at :: int

text \<open>
  \<open>parseFloat(x) || 0\<close> on a DECIMAL column, and a null operand of a subtraction: both
  read a null as 0.
\<close>

definition num_or_zero :: "rat option \<Rightarrow> rat" where
  "num_or_zero x = (case x of None \<Rightarrow> 0 | Some v \<Rightarrow> v)"

definition getNextFinancialYear :: "fiscal_year \<Rightarrow> fiscal_year" where
  "getNextFinancialYear currentFY = currentFY + 1"


record CarryForwardResult =
  cf_stCarryForward :: rat
  cf_ltCarryForward :: rat
  cf_nextYear :: "fiscal_year option"

text \<open>
  What \<open>INSERT ... ON CONFLICT (user_id, financial_year, report_type) DO UPDATE\<close> does
  on a table that accepts it: the row with the key is updated in place, or the new row is
  appended.
\<close>

definition same_report_key :: "tax_report \<Rightarrow> tax_report \<Rightarrow> bool" where
  "same_report_key a b =
     (tr_user_id a = tr_user_id b \<and> tr_financial_year a = tr_financial_year b \<and>
      tr_report_type a = tr_report_type b)"

definition upsert_report :: "tax_report \<Rightarrow> tax_report list \<Rightarrow> tax_report list" where
  "upsert_report new rows =
     (if list_ex (same_report_key new) rows
      then map (\<lambda>r. if same_report_key new r
                      then r\<lparr> tr_total_short_term_losses := tr_total_short_term_losses new,
                             tr_total_long_term_losses := tr_total_long_term_losses new,
                             tr_report_data := tr_report_data new,
                             tr_generated_at := tr_generated_at new \<rparr>
                      else r) rows
      else rows @ [new])"

text \<open>
  \<open>calculateCarryForward\<close>: reads the latest report of the year (\<open>ORDER BY generated_at
  DESC LIMIT 1\<close>) and, when a net loss is positive, stores the net losses under the next
  fiscal year.  \<open>uniques\<close> are the unique constraints of \<open>tax_reports\<close>: without one on
  the conflict target the INSERT is refused, and the \<open>catch\<close> block rethrows with
  nothing stored.  \<open>now\<close> is \<open>CURRENT_TIMESTAMP\<close>.
\<close>

definition calculateCarryForward ::
  "string list list \<Rightarrow> string \<Rightarrow> fiscal_year \<Rightarrow> int \<Rightarrow> tax_report list
     \<Rightarrow> (error + CarryForwardResult) \<times> tax_report list" where
  "calculateCarryForward uniques userId financialYear now reports =
     (case rev (sort_key tr_generated_at
                  (filter (\<lambda>r. tr_user_id r = userId \<and> tr_financial_year r = financialYear)
                     reports)) of
        [] \<Rightarrow> (Inr \<lparr> cf_stCarryForward = 0, cf_ltCarryForward = 0, cf_nextYear = None \<rparr>,
               reports)
      | tax # _ \<Rightarrow>
          (let netSTLoss = max 0 (num_or_zero (tr_total_short_term_losses tax)
                                  - num_or_zero (tr_total_short_term_gains tax));
               netLTLoss = max 0 (num_or_zero (tr_total_long_term_losses tax)
                                  - num_or_zero (tr_total_long_term_gains tax));
               row = \<lparr> tr_user_id = userId,
                       tr_financial_year = getNextFinancialYear financialYear,
                       tr_report_type = ''carry_forward'',
                       tr_total_short_term_gains = Some 0,
                       tr_total_long_term_gains = Some 0,
                       tr_total_short_term_losses = Some netSTLoss,
                       tr_total_long_term_losses = Some netLTLoss,
                       tr_report_data =
                         Some \<lparr> rd_sourceYear = Some financialYear, rd_expiresIn = Some 8 \<rparr>,
                       tr_generated_at = now \<rparr>;
               res = \<lparr> cf_stCarryForward = netSTLoss, cf_ltCarryForward = netLTLoss,
                       cf_nextYear = Some (getNextFinancialYear financialYear) \<rparr>
           in if netSTLoss > 0 \<or> netLTLoss > 0
              then (if conflict_target_ok uniques
                         [''user_id'', ''financial_year'', ''report_type'']
                    then (Inr res, upsert_report row reports)
                    else (Inl StatementRefused, reports))
              else (Inr res, reports)))"

record CarryForwardDetail =
  cfd_sourceYear :: fiscal_year
  cfd_stLoss :: rat
  cfd_ltLoss :: rat
  cfd_generatedAt :: int
  cfd_expiresIn :: int

record AvailableCarryForward =
  totalSTCarryForward :: rat
  totalLTCarryForward :: rat
  details :: "CarryForwardDetail list"
  count :: nat

text \<open>The \<open>map\<close> callback of \<open>getAvailableCarryForward\<close>; \<open>a || b\<close> takes \<open>b\<close> for a
  missing or zero \<open>a\<close>.\<close>

definition carry_forward_detail :: "tax_report \<Rightarrow> CarryForwardDetail" where
  "carry_forward_detail row =
     (let data = (case tr_report_data row of
                    None \<Rightarrow> \<lparr> rd_sourceYear = None, rd_expiresIn = None \<rparr>
                  | Some d \<Rightarrow> d)
      in \<lparr> cfd_sourceYear =
             (case rd_sourceYear data of None \<Rightarrow> tr_financial_year row | Some y \<Rightarrow> y),
           cfd_stLoss = num_or_zero (tr_total_short_term_losses row),
           cfd_ltLoss = num_or_zero (tr_total_long_term_losses row),
           cfd_generatedAt = tr_generated_at row,
           cfd_expiresIn =
             (case rd_expiresIn data of None \<Rightarrow> 8 | Some e \<Rightarrow> if e = 0 then 8 else e) \<rparr>)"

definition getAvailableCarryForward ::
  "string \<Rightarrow> fiscal_year \<Rightarrow> tax_report list \<Rightarrow> AvailableCarryForward" where
  "getAvailableCarryForward userId financialYear reports =
     (let rows = rev (sort_key tr_financial_year
                   (filter (\<lambda>r. tr_user_id r = userId \<and> tr_report_type r = ''carry_forward'' \<and>
                                 tr_financial_year r \<le> financialYear) reports));
          carryForwards = map carry_forward_detail rows
      in \<lparr> totalSTCarryForward = foldl (\<lambda>sum cf. sum + cfd_stLoss cf) 0 carryForwards,
           totalLTCarryForward = foldl (\<lambda>sum cf. sum + cfd_ltLoss cf) 0 carryForwards,
           details = carryForwards,
           count = length carryForwards \<rparr>)"

record AppliedCarryForward =
  originalSTGain :: rat
  originalLTGain :: rat
  adjustedSTGain :: rat
  adjustedLTGain :: rat
  stLossUsed :: rat
  ltLossUsed :: rat
  totalLossUsed :: rat
  taxSaved :: rat
  carryForwardApplied :: bool

text \<open>
  The offsetting of \<open>applyCarryForward\<close> on the two totals it has read; each \<open>let\<close> is
  one assignment of the source, in its order.
\<close>

definition offset_gains :: "rat \<Rightarrow> rat \<Rightarrow> rat \<Rightarrow> rat \<Rightarrow> AppliedCarryForward" where
  "offset_gains totalST totalLT currentSTGain currentLTGain =
     (let remainingSTGain0 = currentSTGain;
          remainingLTGain0 = currentLTGain;
          (remainingSTGain, remainingLTGain1, stLossUsed1) =
            (if totalST > 0
             then (let stOffset = min remainingSTGain0 totalST;
                       remST = remainingSTGain0 - stOffset;
                       used = 0 + stOffset;
                       remainingSTLoss = totalST - used
                   in if remainingSTLoss > 0 \<and> remainingLTGain0 > 0
                      then (let ltOffset = min remainingLTGain0 remainingSTLoss
                            in (remST, remainingLTGain0 - ltOffset, used + ltOffset))
                      else (remST, remainingLTGain0, used))
             else (remainingSTGain0, remainingLTGain0, 0));
          (remainingLTGain, ltLossUsed1) =
            (if totalLT > 0 \<and> remainingLTGain1 > 0
             then (let ltOffset = min remainingLTGain1 totalLT
                   in (remainingLTGain1 - ltOffset, 0 + ltOffset))
             else (remainingLTGain1, 0))
      in \<lparr> originalSTGain = currentSTGain,
           originalLTGain = currentLTGain,
           adjustedSTGain = remainingSTGain,
           adjustedLTGain = remainingLTGain,
           stLossUsed = stLossUsed1,
           ltLossUsed = ltLossUsed1,
           totalLossUsed = stLossUsed1 + ltLossUsed1,
           taxSaved = stLossUsed1 * (15 / 100) + ltLossUsed1 * (10 / 100),
           carryForwardApplied = True \<rparr>)"

definition applyCarryForward ::
  "string \<Rightarrow> fiscal_year \<Rightarrow> rat \<Rightarrow> rat \<Rightarrow> tax_report list \<Rightarrow> AppliedCarryForward" where
  "applyCarryForward userId financialYear currentSTGain currentLTGain reports =
     (let carryForward = getAvailableCarryForward userId financialYear reports
      in offset_gains (totalSTCarryForward carryForward) (totalLTCarryForward carryForward)
           currentSTGain currentLTGain)"

section \<open>The portfolio store\<close>

datatype asset_type = Stock | Crypto

datatype transaction_type = Buy | Sell

datatype rec_status = Pending | Accepted | Rejected | Expired

text \<open>A row of \<open>holdings\<close>.  The schema puts no CHECK on \<open>quantity\<close>.\<close>

record holding_row =
  h_holding_id :: string
  h_user_id :: string
  h_asset_type :: asset_type
  h_asset_symbol :: string
  h_quantity :: rat
  h_average_buy_price :: rat
  h_current_price :: "rat option"
  h_purchase_date :: int
  h_platform :: "string option"

text \<open>A row of \<open>transactions\<close>; \<open>holding_id\<close> is a nullable foreign key.\<close>

record transaction_row =
  t_transaction_id :: string
  t_user_id :: string
  t_holding_id :: "string option"
  t_asset_type :: asset_type
  t_asset_symbol :: string
  t_type :: transaction_type
  t_quantity :: rat
  t_price :: rat
  t_transaction_date :: int
  t_platform :: "string option"
  t_notes :: "string option"

text \<open>
  A row of \<open>tax_recommendations\<close>, with the columns the executor and the status update
  touch.  \<open>saveRecommendation\<close> always stores a quantity and a price, so they are not
  optional here; \<open>holding_id\<close> is a nullable foreign key.
\<close>

record recommendation_row =
  r_recommendation_id :: string
  r_user_id :: string
  r_holding_id :: "string option"
  r_quantity :: rat
  r_current_price :: rat
  r_notes :: "string option"
  r_status :: rec_status
  r_executed_at :: "int option"

record db =
  holdings :: "holding_row list"
  transactions :: "transaction_row list"
  tax_recommendations :: "recommendation_row list"

section \<open>Wash-sale guard (washsale service)\<close>

definition WASH_SALE_DAYS :: int where
  "WASH_SALE_DAYS = 30"

definition ms_per_day :: int where
  "ms_per_day = 1000 * 60 * 60 * 24"

text \<open>
  \<open>d.setDate(d.getDate() + n)\<close> moves a date by \<open>n\<close> calendar days, which is \<open>n\<close> times
  24 hours in a time zone without daylight saving (the deployment's, IST, is one).
\<close>

definition add_days :: "int \<Rightarrow> int \<Rightarrow> int" where
  "add_days d n = d + n * ms_per_day"

text \<open>
  The value a DATE column keeps of a timestamp: the start of its day (days counted from
  the epoch in the store's time zone).
\<close>

definition date_of :: "int \<Rightarrow> int" where
  "date_of ts = (ts div ms_per_day) * ms_per_day"

text \<open>\<open>Math.ceil(ms / (1000 * 60 * 60 * 24))\<close>.\<close>

definition ceil_days :: "int \<Rightarrow> int" where
  "ceil_days ms = \<lceil>rat_of_int ms / rat_of_int ms_per_day\<rceil>"

text \<open>
  The \<open>warning\<close> text is rendered from the sell date and the days to wait; the model
  keeps these two values in place of the text.
\<close>

record WashSaleCheck =
  isWashSale :: bool
  recentSellDate :: "int option"
  canBuyBackAfter :: "int option"
  daysRemaining :: int
  sellPrice :: "rat option"
  warning :: "(int \<times> int) option"

text \<open>
  \<open>checkWashSale\<close>.  \<open>proposedBuyDate\<close> is optional and defaults to \<open>now\<close>.  The query
  filters on the columns \<open>user_id\<close>, \<open>asset_symbol\<close>, \<open>type\<close> and \<open>transaction_date\<close>;
  \<open>cols\<close> are the columns the table has.  When one of the four is missing the query is
  refused and the \<open>catch\<close> block throws "Failed to check wash sale".  Where the table has
  a column \<open>type\<close>, the field \<open>t_type\<close> of a row is its value.  The query orders by
  \<open>transaction_date DESC\<close>; rows of one date keep the table's order reversed.
\<close>

definition checkWashSale ::
  "string list \<Rightarrow> string \<Rightarrow> string \<Rightarrow> int option \<Rightarrow> int \<Rightarrow> transaction_row list
     \<Rightarrow> error + WashSaleCheck" where
  "checkWashSale cols userId assetSymbol proposedBuyDate now txns =
     (let buyDate = (case proposedBuyDate of None \<Rightarrow> now | Some d \<Rightarrow> d);
          thirtyDaysBefore = add_days buyDate (- WASH_SALE_DAYS);
          recentSells =
            rev (sort_key t_transaction_date
              (filter (\<lambda>t. t_user_id t = userId \<and> t_asset_symbol t = assetSymbol \<and>
                            t_type t = Sell \<and> t_transaction_date t \<ge> thirtyDaysBefore \<and>
                            t_transaction_date t \<le> buyDate) txns))
      in if \<not> columns_exist cols
                [''user_id'', ''asset_symbol'', ''type'', ''transaction_date'']
         then Inl FailedToCheckWashSale
         else Inr
           (case recentSells of
              [] \<Rightarrow> \<lparr> isWashSale = False, recentSellDate = None, canBuyBackAfter = None,
                      daysRemaining = 0, sellPrice = None, warning = None \<rparr>
            | mostRecentSell # _ \<Rightarrow>
                (let sellDate = t_transaction_date mostRecentSell;
                     canBuyBack = add_days sellDate WASH_SALE_DAYS;
                     days = ceil_days (canBuyBack - buyDate);
                     wash = (days > 0)
                 in \<lparr> isWashSale = wash, recentSellDate = Some sellDate,
                      canBuyBackAfter = Some canBuyBack,
                      daysRemaining = max 0 days,
                      sellPrice = Some (t_price mostRecentSell),
                      warning = (if wash then Some (sellDate, days) else None) \<rparr>)))"

section \<open>Tax calculator (tax service)\<close>

record TaxConfig =
  financialYear :: fiscal_year
  shortTermEquityRate :: rat
  longTermEquityRate :: rat
  longTermEquityExemption :: rat
  cryptoShortTermRate :: rat
  cryptoLongTermRate :: rat
  surchargeThreshold :: rat
  surchargeRate :: rat
  cessRate :: rat

text \<open>
  A \<open>Holding\<close> as the portfolio service returns it, enriched with its profit or loss
  and its term.  The fields the interface marks optional are options.
\<close>

record Holding =
  holdingId :: string
  userId :: string
  assetType :: asset_type
  assetSymbol :: string
  quantity :: rat
  averageBuyPrice :: rat
  currentPrice :: "rat option"
  profitLoss :: "rat option"
  profitLossPercentage :: "rat option"
  isShortTerm :: "bool option"

record TaxCalculation =
  holding :: Holding
  gainLoss :: rat
  calcIsShortTerm :: bool
  taxRate :: rat
  taxableAmount :: rat
  taxLiability :: rat
  calcAssetType :: asset_type

record TaxSummary =
  sum_userId :: string
  sum_financialYear :: fiscal_year
  totalShortTermGains :: rat
  totalLongTermGains :: rat
  totalShortTermLosses :: rat
  totalLongTermLosses :: rat
  netShortTermGains :: rat
  netLongTermGains :: rat
  totalTaxLiability :: rat
  totalTaxWithSurchargeAndCess :: rat
  calculations :: "TaxCalculation list"

definition default_config :: "fiscal_year \<Rightarrow> TaxConfig" where
  "default_config fy =
     \<lparr> financialYear = fy, shortTermEquityRate = 15, longTermEquityRate = 10,
       longTermEquityExemption = 100000, cryptoShortTermRate = 30, cryptoLongTermRate = 20,
       surchargeThreshold = 5000000, surchargeRate = 10, cessRate = 4 \<rparr>"

text \<open>\<open>getTaxConfig\<close> over the rows of \<open>tax_config\<close>.\<close>

definition getTaxConfig :: "fiscal_year \<Rightarrow> TaxConfig list \<Rightarrow> TaxConfig" where
  "getTaxConfig fy tax_config =
     (case filter (\<lambda>c. financialYear c = fy) tax_config of
        [] \<Rightarrow> default_config fy
      | row # _ \<Rightarrow> row)"

definition calculateHoldingTax :: "Holding \<Rightarrow> TaxConfig \<Rightarrow> TaxCalculation" where
  "calculateHoldingTax h config =
     (let gl = (case profitLoss h of None \<Rightarrow> 0 | Some v \<Rightarrow> v);
          st = (case isShortTerm h of None \<Rightarrow> False | Some b \<Rightarrow> b);
          aty = assetType h;
          (rate, taxable) =
            (if gl > 0 then
               (if aty = Stock then
                  (if st then (shortTermEquityRate config, gl)
                   else (longTermEquityRate config,
                         max 0 (gl - longTermEquityExemption config)))
                else if aty = Crypto then
                  ((if st then cryptoShortTermRate config else cryptoLongTermRate config), gl)
                else (0, gl))
             else (0, gl));
          liability = (if gl > 0 then (taxable * rate) / 100 else 0)
      in \<lparr> holding = h, gainLoss = gl, calcIsShortTerm = st, taxRate = rate,
           taxableAmount = taxable, taxLiability = liability, calcAssetType = aty \<rparr>)"

text \<open>
  The \<open>for\<close> loop of \<open>calculateTax\<close> over the calculations, with its four running
  totals (short-term gains, long-term gains, short-term losses, long-term losses).
\<close>

fun tally :: "TaxCalculation list \<Rightarrow> rat \<times> rat \<times> rat \<times> rat \<Rightarrow> rat \<times> rat \<times> rat \<times> rat" where
  "tally [] acc = acc"
| "tally (c # cs) (stg, ltg, stl, ltl) =
     tally cs
       (if calcIsShortTerm c
        then (if gainLoss c > 0 then (stg + gainLoss c, ltg, stl, ltl)
              else (stg, ltg, stl + \<bar>gainLoss c\<bar>, ltl))
        else (if gainLoss c > 0 then (stg, ltg + gainLoss c, stl, ltl)
              else (stg, ltg, stl, ltl + \<bar>gainLoss c\<bar>)))"

text \<open>
  \<open>calculateTax\<close>; \<open>hs\<close> is what \<open>portfolioService.getUserHoldings(userId)\<close> returned.
\<close>

definition calculateTax ::
  "string \<Rightarrow> fiscal_year \<Rightarrow> Holding list \<Rightarrow> TaxConfig list \<Rightarrow> TaxSummary" where
  "calculateTax uid fy hs tax_config =
     (let taxConfig = getTaxConfig fy tax_config;
          calcs = map (\<lambda>h. calculateHoldingTax h taxConfig) hs;
          (stg, ltg, stl, ltl) = tally calcs (0, 0, 0, 0);
          netST = max 0 (stg - stl);
          netLT = max 0 (ltg - ltl);
          liability = foldl (\<lambda>sum calc. sum + taxLiability calc) 0 calcs;
          taxWithSurcharge =
            (if stg + ltg > surchargeThreshold taxConfig
             then liability + liability * (surchargeRate taxConfig / 100)
             else liability);
          total = taxWithSurcharge + taxWithSurcharge * (cessRate taxConfig / 100)
      in \<lparr> sum_userId = uid, sum_financialYear = fy,
           totalShortTermGains = stg, totalLongTermGains = ltg,
           totalShortTermLosses = stl, totalLongTermLosses = ltl,
           netShortTermGains = netST, netLongTermGains = netLT,
           totalTaxLiability = liability, totalTaxWithSurchargeAndCess = total,
           calculations = calcs \<rparr>)"

section \<open>Recommendation engine (tax service)\<close>

datatype recommendation_type = harvest_loss | defer_gain | sell_partial

text \<open>A calendar date \<open>(year, month, day)\<close>, for the deadline.\<close>

type_synonym ymd = "int \<times> nat \<times> nat"

record TaxRecommendation =
  rec_userId :: string
  rec_holdingId :: string
  rec_assetSymbol :: string
  recommendationType :: recommendation_type
  rec_currentPrice :: rat
  purchasePrice :: rat
  rec_quantity :: rat
  potentialLoss :: rat
  taxSavings :: rat
  priorityScore :: int
  deadline :: ymd
  rec_notes :: string
  status :: rec_status

text \<open>
  The body of the \<open>for\<close> loop of \<open>generateRecommendations\<close> for one loss-making
  calculation.  \<open>render\<close> is the template of the notes, which prints the loss and the
  savings with \<open>toFixed(2)\<close>.
\<close>

definition recommend ::
  "string \<Rightarrow> fiscal_year \<Rightarrow> (rat \<Rightarrow> rat \<Rightarrow> string) \<Rightarrow> TaxSummary \<Rightarrow> TaxCalculation
     \<Rightarrow> TaxRecommendation" where
  "recommend uid fy render taxSummary calc =
     (let h = holding calc;
          loss = \<bar>gainLoss calc\<bar>;
          saving =
            (if calcIsShortTerm calc \<and> netShortTermGains taxSummary > 0
             then (let offsetAmount = min loss (netShortTermGains taxSummary)
                   in (offsetAmount * taxRate calc) / 100)
             else if \<not> calcIsShortTerm calc \<and> netLongTermGains taxSummary > 0
             then (let offsetAmount = min loss (netLongTermGains taxSummary)
                   in (offsetAmount * taxRate calc) / 100)
             else 0);
          lossPercentage = \<bar>case profitLossPercentage h of None \<Rightarrow> 0 | Some p \<Rightarrow> p\<bar>;
          score = min 10 (\<lfloor>lossPercentage / 5\<rfloor> + (if saving > 0 then 3 else 0))
      in \<lparr> rec_userId = uid,
           rec_holdingId = holdingId h,
           rec_assetSymbol = assetSymbol h,
           recommendationType = harvest_loss,
           rec_currentPrice =
             (case currentPrice h of
                None \<Rightarrow> averageBuyPrice h
              | Some p \<Rightarrow> if p = 0 then averageBuyPrice h else p),
           purchasePrice = averageBuyPrice h,
           rec_quantity = quantity h,
           potentialLoss = loss,
           taxSavings = saving,
           priorityScore = score,
           deadline = (fy + 1, 3, 31),
           rec_notes = render loss saving,
           status = Pending \<rparr>)"

text \<open>
  \<open>generateRecommendations\<close>: the list it returns.  \<open>Array.prototype.sort\<close> is stable,
  as \<open>sort_key\<close> is.  The loop that then stores each recommendation does not change the
  list and is not part of the model.
\<close>

definition generateRecommendations ::
  "string \<Rightarrow> fiscal_year \<Rightarrow> (rat \<Rightarrow> rat \<Rightarrow> string) \<Rightarrow> Holding list \<Rightarrow> TaxConfig list
     \<Rightarrow> TaxRecommendation list" where
  "generateRecommendations uid fy render hs tax_config =
     (let taxSummary = calculateTax uid fy hs tax_config;
          lossHoldings = filter (\<lambda>calc. gainLoss calc < 0) (calculations taxSummary);
          recommendations = map (recommend uid fy render taxSummary) lossHoldings
      in sort_key (\<lambda>r. - priorityScore r) recommendations)"

section \<open>Recommendation lifecycle and executor (tax and transaction services)\<close>

text \<open>
  \<open>updateRecommendationStatus\<close>: one UPDATE on the rows of that id and user; no row
  updated is the 404 error.
\<close>

definition updateRecommendationStatus ::
  "string \<Rightarrow> string \<Rightarrow> rec_status \<Rightarrow> db \<Rightarrow> (error + unit) \<times> db" where
  "updateRecommendationStatus recommendationId uid st d =
     (let hit = (\<lambda>r. r_recommendation_id r = recommendationId \<and> r_user_id r = uid);
          rowCount = length (filter hit (tax_recommendations d))
      in if rowCount = 0 then (Inl RecommendationNotFound, d)
         else (Inr (),
               d\<lparr> tax_recommendations :=
                     map (\<lambda>r. if hit r then r\<lparr> r_status := st \<rparr> else r)
                       (tax_recommendations d) \<rparr>))"

text \<open>
  \<open>DELETE FROM holdings WHERE holding_id = $1\<close>.  The foreign keys of \<open>transactions\<close>
  and \<open>tax_recommendations\<close> are declared \<open>ON DELETE SET NULL\<close>.
\<close>

definition delete_holding :: "string \<Rightarrow> db \<Rightarrow> db" where
  "delete_holding hid d =
     d\<lparr> holdings := filter (\<lambda>h. h_holding_id h \<noteq> hid) (holdings d),
        transactions :=
          map (\<lambda>t. if t_holding_id t = Some hid then t\<lparr> t_holding_id := None \<rparr> else t)
            (transactions d),
        tax_recommendations :=
          map (\<lambda>r. if r_holding_id r = Some hid then r\<lparr> r_holding_id := None \<rparr> else r)
            (tax_recommendations d) \<rparr>"

text \<open>\<open>UPDATE holdings SET quantity = f(quantity) WHERE holding_id = $2\<close>.\<close>

definition update_quantity :: "string \<Rightarrow> (rat \<Rightarrow> rat) \<Rightarrow> db \<Rightarrow> db" where
  "update_quantity hid f d =
     d\<lparr> holdings :=
          map (\<lambda>h. if h_holding_id h = hid then h\<lparr> h_quantity := f (h_quantity h) \<rparr> else h)
            (holdings d) \<rparr>"

record holding_outcome =
  ho_asset_symbol :: string
  remaining_quantity :: rat
  fully_sold :: bool

record execution =
  ex_transaction :: transaction_row
  ex_recommendation :: recommendation_row
  ex_holding :: holding_outcome

text \<open>
  The statements of \<open>executeRecommendation\<close> between BEGIN and COMMIT.  A \<open>throw\<close> is
  \<open>Inl\<close>.  \<open>now\<close> is \<open>NOW()\<close>, of which the DATE column \<open>transaction_date\<close> keeps the
  day, and \<open>new_id\<close> the key the store gives the inserted transaction.
\<close>

definition execute_steps :: "string \<Rightarrow> string \<Rightarrow> int \<Rightarrow> string \<Rightarrow> db \<Rightarrow> error + execution \<times> db" where
  "execute_steps uid recommendationId now new_id d =
     (case filter (\<lambda>r. r_recommendation_id r = recommendationId \<and> r_user_id r = uid \<and>
                        r_status r = Pending) (tax_recommendations d) of
        [] \<Rightarrow> Inl RecommendationNotFoundOrAlreadyExecuted
      | rcm # _ \<Rightarrow>
          (case filter (\<lambda>h. Some (h_holding_id h) = r_holding_id rcm \<and>
                             h_user_id h = uid) (holdings d) of
             [] \<Rightarrow> Inl HoldingNotFound
           | hld # _ \<Rightarrow>
               (let txn = \<lparr> t_transaction_id = new_id,
                           t_user_id = uid,
                           t_holding_id = Some (h_holding_id hld),
                           t_asset_type = h_asset_type hld,
                           t_asset_symbol = h_asset_symbol hld,
                           t_type = Sell,
                           t_quantity = r_quantity rcm,
                           t_price = r_current_price rcm,
                           t_transaction_date = date_of now,
                           t_platform = Some ''tlh_execution'',
                           t_notes = Some (''Tax loss harvesting: '' @
                             (case r_notes rcm of
                                None \<Rightarrow> ''Executed via TaxSaver''
                              | Some n \<Rightarrow> if n = [] then ''Executed via TaxSaver'' else n)) \<rparr>;
                    d1 = d\<lparr> transactions := transactions d @ [txn] \<rparr>;
                    newQuantity = h_quantity hld - r_quantity rcm;
                    d2 = (if newQuantity \<le> 0 then delete_holding (h_holding_id hld) d1
                          else update_quantity (h_holding_id hld) (\<lambda>_. newQuantity) d1);
                    d3 = d2\<lparr> tax_recommendations :=
                               map (\<lambda>r. if r_recommendation_id r = recommendationId
                                         then r\<lparr> r_status := Accepted, r_executed_at := Some now \<rparr>
                                         else r) (tax_recommendations d2) \<rparr>
                in Inr (\<lparr> ex_transaction = txn,
                          ex_recommendation =
                            rcm\<lparr> r_status := Accepted, r_executed_at := Some now \<rparr>,
                          ex_holding = \<lparr> ho_asset_symbol = h_asset_symbol hld,
                                         remaining_quantity = newQuantity,
                                         fully_sold = (newQuantity \<le> 0) \<rparr> \<rparr>, d3))))"

text \<open>
  \<open>executeRecommendation\<close>: COMMIT keeps the store the steps produced, and the
  \<open>catch\<close> block's ROLLBACK restores the store of the call before it rethrows.
\<close>

definition executeRecommendation ::
  "string \<Rightarrow> string \<Rightarrow> int \<Rightarrow> string \<Rightarrow> db \<Rightarrow> (error + execution) \<times> db" where
  "executeRecommendation uid recommendationId now new_id d =
     (case execute_steps uid recommendationId now new_id d of
        Inl e \<Rightarrow> (Inl e, d)
      | Inr (res, d') \<Rightarrow> (Inr res, d'))"

text \<open>
  The statements of \<open>reverseTransaction\<close> between BEGIN and COMMIT.  SQL's \<open>CONCAT\<close>
  reads a null as the empty string.
\<close>

definition reverse_steps :: "string \<Rightarrow> string \<Rightarrow> db \<Rightarrow> error + db" where
  "reverse_steps uid transactionId d =
     (case filter (\<lambda>t. t_transaction_id t = transactionId \<and> t_user_id t = uid)
             (transactions d) of
        [] \<Rightarrow> Inl TransactionNotFound
      | txn # _ \<Rightarrow>
          (let d1 = (case t_holding_id txn of
                       None \<Rightarrow> d
                     | Some hid \<Rightarrow>
                         if t_type txn = Sell then
                           (if filter (\<lambda>h. h_holding_id h = hid) (holdings d) \<noteq> []
                            then update_quantity hid (\<lambda>q. q + t_quantity txn) d
                            else d\<lparr> holdings := holdings d @
                                   [\<lparr> h_holding_id = hid,
                                      h_user_id = uid,
                                      h_asset_type = t_asset_type txn,
                                      h_asset_symbol = t_asset_symbol txn,
                                      h_quantity = t_quantity txn,
                                      h_average_buy_price = t_price txn,
                                      h_current_price = Some (t_price txn),
                                      h_purchase_date = t_transaction_date txn,
                                      h_platform = t_platform txn \<rparr>] \<rparr>)
                         else d);
               d2 = (case t_holding_id txn of
                       None \<Rightarrow> d1
                     | Some hid \<Rightarrow>
                         if t_type txn = Buy
                         then update_quantity hid (\<lambda>q. q - t_quantity txn) d1
                         else d1);
               d3 = d2\<lparr> transactions :=
                          map (\<lambda>t. if t_transaction_id t = transactionId
                                    then t\<lparr> t_notes :=
                                           Some ((case t_notes t of None \<Rightarrow> [] | Some n \<Rightarrow> n)
                                                 @ '' [REVERSED]'') \<rparr>
                                    else t) (transactions d2) \<rparr>
           in Inr d3))"

definition reverseTransaction :: "string \<Rightarrow> string \<Rightarrow> db \<Rightarrow> (error + unit) \<times> db" where
  "reverseTransaction uid transactionId d =
     (case reverse_steps uid transactionId d of
        Inl e \<Rightarrow> (Inl e, d)
      | Inr d' \<Rightarrow> (Inr (), d'))"

section \<open>Predicates used in the statements\<close>

text \<open>The slabs the monotonicity argument needs: a rate that is not negative, and an upper
  bound that is not below the lower one.\<close>

definition slab_ok :: "slab \<Rightarrow> bool" where
  "slab_ok s =
     (0 \<le> slab_rate s \<and> (case slab_max s of None \<Rightarrow> True | Some m \<Rightarrow> slab_min s \<le> m))"

text \<open>What one slab adds to the tax.\<close>

definition slab_part :: "rat \<Rightarrow> slab \<Rightarrow> rat" where
  "slab_part income s =
     (if income > slab_min s
      then (min_upto income (slab_max s) - slab_min s) * slab_rate s else 0)"

text \<open>The invariant of the data model: no holding has a negative quantity.\<close>

definition quantities_nonneg :: "db \<Rightarrow> bool" where
  "quantities_nonneg d = list_all (\<lambda>h. 0 \<le> h_quantity h) (holdings d)"

text \<open>The status of every stored recommendation with the given id.\<close>

definition statuses_of :: "string \<Rightarrow> db \<Rightarrow> rec_status list" where
  "statuses_of rid d =
     map r_status (filter (\<lambda>r. r_recommendation_id r = rid) (tax_recommendations d))"

text \<open>A holding of equity that is long-term (not flagged short-term) and has the gain \<open>g\<close>.\<close>

definition long_term_equity_gain :: "Holding \<Rightarrow> rat \<Rightarrow> bool" where
  "long_term_equity_gain h g =
     (assetType h = Stock \<and> isShortTerm h \<noteq> Some True \<and> profitLoss h = Some g \<and> 0 < g)"

section \<open>Concrete inputs\<close>

text \<open>Income 1,000,000 with deductions of 175,000 and no capital gains.\<close>

definition regime_example_input :: TaxRegimeInput where
  "regime_example_input =
     \<lparr> totalIncome = 1000000,
       deductions = \<lparr> section80C = 150000, section80D = 25000, homeLoanInterest = 0,
                      nps = 0, other = 0 \<rparr>,
       capitalGains = \<lparr> shortTermEquity = 0, longTermEquity = 0,
                        shortTermCrypto = 0, longTermCrypto = 0 \<rparr> \<rparr>"

text \<open>
  A user's report of fiscal year 2010-11 with net losses, and a ledger that holds it
  together with the carry-forward row that \<open>calculateCarryForward\<close> builds from it: the
  net losses under 2011-12, sourced from 2010-11, with \<open>expiresIn = 8\<close>.
\<close>

definition loss_report_2010 :: tax_report where
  "loss_report_2010 =
     \<lparr> tr_user_id = ''u1'', tr_financial_year = 2010, tr_report_type = ''capital_gains'',
       tr_total_short_term_gains = Some 0, tr_total_long_term_gains = Some 0,
       tr_total_short_term_losses = Some 50000, tr_total_long_term_losses = Some 20000,
       tr_report_data = None, tr_generated_at = 0 \<rparr>"

definition ledger_2011 :: "tax_report list" where
  "ledger_2011 =
     [loss_report_2010,
      \<lparr> tr_user_id = ''u1'', tr_financial_year = 2011, tr_report_type = ''carry_forward'',
        tr_total_short_term_gains = Some 0, tr_total_long_term_gains = Some 0,
        tr_total_short_term_losses = Some 50000, tr_total_long_term_losses = Some 20000,
        tr_report_data = Some \<lparr> rd_sourceYear = Some 2010, rd_expiresIn = Some 8 \<rparr>,
        tr_generated_at = 1 \<rparr>]"

text \<open>
  Two short-term stock holdings: RELIANCE, 10 units bought at 2500 and now at 2300 (a
  loss of 2000, 8 per cent), and TCS with a gain of 5000.
\<close>

definition reliance :: Holding where
  "reliance =
     \<lparr> holdingId = ''h1'', userId = ''u1'', assetType = Stock, assetSymbol = ''RELIANCE'',
       quantity = 10, averageBuyPrice = 2500, currentPrice = Some 2300,
       profitLoss = Some (- 2000), profitLossPercentage = Some (- 8),
       isShortTerm = Some True \<rparr>"

definition tcs :: Holding where
  "tcs =
     \<lparr> holdingId = ''h2'', userId = ''u1'', assetType = Stock, assetSymbol = ''TCS'',
       quantity = 10, averageBuyPrice = 3000, currentPrice = Some 3500,
       profitLoss = Some 5000, profitLossPercentage = Some (50 / 3),
       isShortTerm = Some True \<rparr>"

text \<open>Two long-term lots of one stock, each with a gain of 150,000.\<close>

definition infy_lot :: "string \<Rightarrow> Holding" where
  "infy_lot hid =
     \<lparr> holdingId = hid, userId = ''u1'', assetType = Stock, assetSymbol = ''INFY'',
       quantity = 100, averageBuyPrice = 1000, currentPrice = Some 2500,
       profitLoss = Some 150000, profitLossPercentage = Some 150,
       isShortTerm = Some False \<rparr>"

text \<open>
  A store with one holding of 10 units, the purchase that created it, and a pending
  recommendation to sell the 10 units; and the store after that recommendation has been
  executed.
\<close>

definition example_db :: db where
  "example_db =
     \<lparr> holdings =
         [\<lparr> h_holding_id = ''h1'', h_user_id = ''u1'', h_asset_type = Stock,
            h_asset_symbol = ''RELIANCE'', h_quantity = 10, h_average_buy_price = 2500,
            h_current_price = Some 2300, h_purchase_date = 0, h_platform = None \<rparr>],
       transactions =
         [\<lparr> t_transaction_id = ''t1'', t_user_id = ''u1'', t_holding_id = Some ''h1'',
            t_asset_type = Stock, t_asset_symbol = ''RELIANCE'', t_type = Buy,
            t_quantity = 10, t_price = 2500, t_transaction_date = 0,
            t_platform = None, t_notes = None \<rparr>],
       tax_recommendations =
         [\<lparr> r_recommendation_id = ''r1'', r_user_id = ''u1'', r_holding_id = Some ''h1'',
            r_quantity = 10, r_current_price = 2300, r_notes = None,
            r_status = Pending, r_executed_at = None \<rparr>] \<rparr>"

definition executed_db :: db where
  "executed_db = snd (executeRecommendation ''u1'' ''r1'' 1000 ''t2'' example_db)"

text \<open>A sale of TCS on day 0, the only row of a transaction table.\<close>

definition tcs_sale :: transaction_row where
  "tcs_sale =
     \<lparr> t_transaction_id = ''t7'', t_user_id = ''u1'', t_holding_id = None,
       t_asset_type = Stock, t_asset_symbol = ''TCS'', t_type = Sell,
       t_quantity = 5, t_price = 3500, t_transaction_date = 0,
       t_platform = None, t_notes = None \<rparr>"

section \<open>Slab tax and regime comparison\<close>

lemma slab_loop_acc: "slab_loop income ss tax = tax + slab_loop income ss 0"
proof (induction ss arbitrary: tax)
  case Nil
  then show ?case by simp
next
  case (Cons s ss)
  show ?case
    using Cons.IH[of "tax + (min_upto income (slab_max s) - slab_min s) * slab_rate s"]
      Cons.IH[of "(min_upto income (slab_max s) - slab_min s) * slab_rate s"]
      Cons.IH[of tax]
    by simp
qed

lemma slab_loop_Cons:
  "slab_loop income (s # ss) 0 = slab_part income s + slab_loop income ss 0"
  using slab_loop_acc[of income ss "(min_upto income (slab_max s) - slab_min s) * slab_rate s"]
  by (simp add: slab_part_def)

lemma slab_part_nonneg: "slab_ok s \<Longrightarrow> 0 \<le> slab_part income s"
  by (auto simp: slab_ok_def slab_part_def min_upto_def split: option.splits)

lemma slab_part_mono: "slab_ok s \<Longrightarrow> a \<le> b \<Longrightarrow> slab_part a s \<le> slab_part b s"
  by (auto simp: slab_ok_def slab_part_def min_upto_def mult_right_mono split: option.splits)

lemma calculateSlabTax_mono:
  "list_all slab_ok ss \<Longrightarrow> a \<le> b \<Longrightarrow> calculateSlabTax a ss \<le> calculateSlabTax b ss"
  unfolding calculateSlabTax_def
proof (induction ss)
  case Nil
  then show ?case by simp
next
  case (Cons s ss)
  then show ?case
    using slab_part_mono[of s a b]
    by (simp add: slab_loop_Cons add_mono del: slab_loop.simps)
qed

lemma calculateSlabTax_nonneg: "list_all slab_ok ss \<Longrightarrow> 0 \<le> calculateSlabTax a ss"
  unfolding calculateSlabTax_def
proof (induction ss)
  case Nil
  then show ?case by simp
next
  case (Cons s ss)
  then show ?case
    using slab_part_nonneg[of s a]
    by (simp add: slab_loop_Cons del: slab_loop.simps)
qed

lemma old_slabs_ok: "list_all slab_ok OLD_REGIME_SLABS"
  by (simp add: OLD_REGIME_SLABS_def slab_ok_def mk_slab_def)

lemma new_slabs_ok: "list_all slab_ok NEW_REGIME_SLABS"
  by (simp add: NEW_REGIME_SLABS_def slab_ok_def mk_slab_def)

lemma calculateSurcharge_mono:
  "0 \<le> t1 \<Longrightarrow> t1 \<le> t2 \<Longrightarrow> i1 \<le> i2
     \<Longrightarrow> calculateSurcharge t1 i1 \<le> calculateSurcharge t2 i2"
  by (auto simp: calculateSurcharge_def)

lemma with_cess_mono: "(x::rat) \<le> y \<Longrightarrow> x + x * (4 / 100) \<le> y + y * (4 / 100)"
  by (simp add: add_mono)

lemma quickEstimate_old:
  "qe_oldRegime (quickEstimate income ded) =
     (let t = calculateSlabTax (max 0 (income - min ded 350000)) OLD_REGIME_SLABS;
          s = calculateSurcharge t income
      in t + s + (t + s) * (4 / 100))"
  by (simp add: quickEstimate_def compareRegimes_def calculateOldRegime_def Let_def
      calculateCapitalGainsTax_def getTotalCapitalGains_def)

lemma quickEstimate_new:
  "qe_newRegime (quickEstimate income ded) =
     (let t = calculateSlabTax income NEW_REGIME_SLABS;
          s = calculateSurcharge t income
      in t + s + (t + s) * (4 / 100))"
  by (simp add: quickEstimate_def compareRegimes_def calculateNewRegime_def Let_def
      calculateCapitalGainsTax_def getTotalCapitalGains_def)

lemma quickEstimate_old_mono:
  assumes "0 \<le> a" and "a \<le> b"
  shows "qe_oldRegime (quickEstimate a ded) \<le> qe_oldRegime (quickEstimate b ded)"
proof -
  let ?ta = "calculateSlabTax (max 0 (a - min ded 350000)) OLD_REGIME_SLABS"
  let ?tb = "calculateSlabTax (max 0 (b - min ded 350000)) OLD_REGIME_SLABS"
  have t: "?ta \<le> ?tb"
    using assms by (intro calculateSlabTax_mono[OF old_slabs_ok]) auto
  have t0: "0 \<le> ?ta"
    by (rule calculateSlabTax_nonneg[OF old_slabs_ok])
  have s: "calculateSurcharge ?ta a \<le> calculateSurcharge ?tb b"
    using t t0 assms by (intro calculateSurcharge_mono) auto
  have "?ta + calculateSurcharge ?ta a \<le> ?tb + calculateSurcharge ?tb b"
    using t s by (rule add_mono)
  then show ?thesis
    unfolding quickEstimate_old Let_def by (rule with_cess_mono)
qed

lemma quickEstimate_new_mono:
  assumes "0 \<le> a" and "a \<le> b"
  shows "qe_newRegime (quickEstimate a ded) \<le> qe_newRegime (quickEstimate b ded)"
proof -
  let ?ta = "calculateSlabTax a NEW_REGIME_SLABS"
  let ?tb = "calculateSlabTax b NEW_REGIME_SLABS"
  have t: "?ta \<le> ?tb"
    using assms by (intro calculateSlabTax_mono[OF new_slabs_ok]) auto
  have t0: "0 \<le> ?ta"
    by (rule calculateSlabTax_nonneg[OF new_slabs_ok])
  have s: "calculateSurcharge ?ta a \<le> calculateSurcharge ?tb b"
    using t t0 assms by (intro calculateSurcharge_mono) auto
  have "?ta + calculateSurcharge ?ta a \<le> ?tb + calculateSurcharge ?tb b"
    using t s by (rule add_mono)
  then show ?thesis
    unfolding quickEstimate_new Let_def by (rule with_cess_mono)
qed

lemma old_tax_example: "calculateSlabTax 825000 OLD_REGIME_SLABS = 77500"
  by (simp add: calculateSlabTax_def OLD_REGIME_SLABS_def mk_slab_def min_upto_def)

lemma new_tax_example: "calculateSlabTax 1000000 NEW_REGIME_SLABS = 60000"
  by (simp add: calculateSlabTax_def NEW_REGIME_SLABS_def mk_slab_def min_upto_def)

text \<open>
  Claim C10.  On the old-regime table and on the new-regime table the slab tax does not
  decrease when the income grows: for \<open>0 \<le> a \<le> b\<close>, \<open>calculateSlabTax a \<le>
  calculateSlabTax b\<close>.  So \<open>quickEstimate\<close>, for the same deductions, reports no higher
  tax for the lower income, under either regime.
\<close>

theorem slab_tax_monotone:
  assumes "0 \<le> a" and "a \<le> b"
  shows "calculateSlabTax a OLD_REGIME_SLABS \<le> calculateSlabTax b OLD_REGIME_SLABS \<and>
         calculateSlabTax a NEW_REGIME_SLABS \<le> calculateSlabTax b NEW_REGIME_SLABS \<and>
         qe_oldRegime (quickEstimate a ded) \<le> qe_oldRegime (quickEstimate b ded) \<and>
         qe_newRegime (quickEstimate a ded) \<le> qe_newRegime (quickEstimate b ded)"
  using assms calculateSlabTax_mono[OF old_slabs_ok, of a b]
    calculateSlabTax_mono[OF new_slabs_ok, of a b]
    quickEstimate_old_mono[of a b ded] quickEstimate_new_mono[of a b ded]
  by simp

theorem slab_tax_monotone_witness:
  "(0::rat) \<le> 825000 \<and> (825000::rat) \<le> 1000000 \<and>
   calculateSlabTax 825000 OLD_REGIME_SLABS \<le> calculateSlabTax 1000000 OLD_REGIME_SLABS \<and>
   calculateSlabTax 825000 NEW_REGIME_SLABS \<le> calculateSlabTax 1000000 NEW_REGIME_SLABS \<and>
   calculateSlabTax 825000 OLD_REGIME_SLABS = 77500"
  using slab_tax_monotone[of 825000 1000000 0] old_tax_example by simp

text \<open>
  Claim C7 says that for an income of 1,000,000, deductions of 175,000 and no capital
  gains the old-regime total tax is below the new-regime total tax and the recommendation
  is OLD; the service's own test asserts the same of this input.  The comparator computes
  77,500 of old-regime income tax on 825,000 and 60,000 of new-regime income tax on
  1,000,000, so with the cess 80,600 against 62,400, and recommends NEW.
\<close>

theorem regime_example_recommends_new:
  "deductionsUsed (oldRegime (compareRegimes regime_example_input)) = 175000 \<and>
   totalTax (oldRegime (compareRegimes regime_example_input)) = 80600 \<and>
   totalTax (newRegime (compareRegimes regime_example_input)) = 62400 \<and>
   recommendation (compareRegimes regime_example_input) = NEW"
  by (simp add: regime_example_input_def compareRegimes_def calculateOldRegime_def
      calculateNewRegime_def Let_def calculateCapitalGainsTax_def getTotalCapitalGains_def
      calculateSurcharge_def old_tax_example new_tax_example)

section \<open>Carry-forward\<close>

lemma offset_gains_residues:
  assumes "0 \<le> st" and "0 \<le> lt"
  shows "(let S = max 0 totST; L = max 0 totLT;
              stOnST = min st S;
              stLeft = S - stOnST;
              stOnLT = min lt stLeft;
              ltOnLT = min (lt - stOnLT) L;
              r = offset_gains totST totLT st lt
          in adjustedSTGain r = st - stOnST \<and>
             adjustedLTGain r = lt - stOnLT - ltOnLT \<and>
             stLossUsed r = stOnST + stOnLT \<and>
             ltLossUsed r = ltOnLT \<and>
             0 \<le> adjustedSTGain r \<and> 0 \<le> adjustedLTGain r \<and>
             taxSaved r = stLossUsed r * (15 / 100) + ltLossUsed r * (10 / 100))"
  using assms
  by (auto simp: offset_gains_def Let_def min_def max_def split: if_splits)

lemma ledger_2011_rows:
  "ledger_2011 =
     [loss_report_2010,
      \<lparr> tr_user_id = ''u1'', tr_financial_year = 2011, tr_report_type = ''carry_forward'',
        tr_total_short_term_gains = Some 0, tr_total_long_term_gains = Some 0,
        tr_total_short_term_losses = Some 50000, tr_total_long_term_losses = Some 20000,
        tr_report_data = Some \<lparr> rd_sourceYear = Some 2010, rd_expiresIn = Some 8 \<rparr>,
        tr_generated_at = 1 \<rparr>]"
  by (simp add: ledger_2011_def)

text \<open>
  On the schema of the repository the write of \<open>calculateCarryForward\<close> is refused:
  \<open>tax_reports\<close> has no unique constraint on the conflict target.  With such a
  constraint the call stores the carry-forward row of \<open>ledger_2011\<close>.
\<close>

lemma carry_forward_write_refused:
  "calculateCarryForward tax_reports_unique ''u1'' 2010 1 [loss_report_2010]
     = (Inl StatementRefused, [loss_report_2010])"
  by (simp add: calculateCarryForward_def loss_report_2010_def num_or_zero_def
      conflict_target_ok_def tax_reports_unique_def Let_def)

lemma carry_forward_write_accepted:
  "snd (calculateCarryForward
          [[''report_id''], [''user_id'', ''financial_year'', ''report_type'']]
          ''u1'' 2010 1 [loss_report_2010]) = ledger_2011"
  by (simp add: calculateCarryForward_def loss_report_2010_def num_or_zero_def
      conflict_target_ok_def getNextFinancialYear_def upsert_report_def same_report_key_def
      ledger_2011_def Let_def)

lemma ledger_2011_available:
  "totalSTCarryForward (getAvailableCarryForward ''u1'' fy ledger_2011)
     = (if 2011 \<le> fy then 50000 else 0) \<and>
   totalLTCarryForward (getAvailableCarryForward ''u1'' fy ledger_2011)
     = (if 2011 \<le> fy then 20000 else 0)"
  by (simp add: ledger_2011_rows getAvailableCarryForward_def loss_report_2010_def
      carry_forward_detail_def num_or_zero_def Let_def)

text \<open>
  Claim C6.  For gains that are not negative, \<open>applyCarryForward\<close> offsets in this order:
  the short-term carry-forward first reduces the short-term gain, what is left of it
  reduces the long-term gain, and the long-term carry-forward then reduces the long-term
  gain only (the adjusted short-term gain does not depend on it).  Both adjusted gains
  are the residues of this order and are never negative, and \<open>taxSaved\<close> is
  \<open>stLossUsed * 0.15 + ltLossUsed * 0.10\<close>.  A total that is not positive offsets
  nothing.
\<close>

theorem carry_forward_ordering:
  assumes "0 \<le> currentSTGain" and "0 \<le> currentLTGain"
  shows "(let avail = getAvailableCarryForward uid fy reports;
              S = max 0 (totalSTCarryForward avail);
              L = max 0 (totalLTCarryForward avail);
              stOnST = min currentSTGain S;
              stLeft = S - stOnST;
              stOnLT = min currentLTGain stLeft;
              ltOnLT = min (currentLTGain - stOnLT) L;
              r = applyCarryForward uid fy currentSTGain currentLTGain reports
          in adjustedSTGain r = currentSTGain - stOnST \<and>
             adjustedLTGain r = currentLTGain - stOnLT - ltOnLT \<and>
             stLossUsed r = stOnST + stOnLT \<and>
             ltLossUsed r = ltOnLT \<and>
             0 \<le> adjustedSTGain r \<and> 0 \<le> adjustedLTGain r \<and>
             taxSaved r = stLossUsed r * (15 / 100) + ltLossUsed r * (10 / 100))"
  using offset_gains_residues[OF assms,
      of "totalSTCarryForward (getAvailableCarryForward uid fy reports)"
         "totalLTCarryForward (getAvailableCarryForward uid fy reports)"]
  by (simp add: applyCarryForward_def Let_def)

theorem carry_forward_ordering_witness:
  "adjustedSTGain (applyCarryForward ''u1'' 2012 30000 100000 ledger_2011) = 0 \<and>
   adjustedLTGain (applyCarryForward ''u1'' 2012 30000 100000 ledger_2011) = 60000 \<and>
   stLossUsed (applyCarryForward ''u1'' 2012 30000 100000 ledger_2011) = 50000 \<and>
   ltLossUsed (applyCarryForward ''u1'' 2012 30000 100000 ledger_2011) = 20000 \<and>
   taxSaved (applyCarryForward ''u1'' 2012 30000 100000 ledger_2011) = 9500"
  using carry_forward_ordering[of 30000 100000 "''u1''" 2012 ledger_2011]
  by (simp add: ledger_2011_available Let_def)


section \<open>Tax calculator and recommendation engine\<close>

lemma calculateHoldingTax_long_term_equity:
  assumes "long_term_equity_gain h g"
  shows "calculateHoldingTax h cfg =
     \<lparr> holding = h, gainLoss = g, calcIsShortTerm = False, taxRate = longTermEquityRate cfg,
       taxableAmount = max 0 (g - longTermEquityExemption cfg),
       taxLiability = (max 0 (g - longTermEquityExemption cfg) * longTermEquityRate cfg) / 100,
       calcAssetType = Stock \<rparr>"
  using assms
  by (cases "isShortTerm h")
    (auto simp: long_term_equity_gain_def calculateHoldingTax_def Let_def)

lemma calculations_calculateTax:
  "calculations (calculateTax u fy hs tax_config)
     = map (\<lambda>h. calculateHoldingTax h (getTaxConfig fy tax_config)) hs"
  by (simp add: calculateTax_def Let_def case_prod_beta)

text \<open>
  Claim C5.  For a long-term equity holding with a gain \<open>g > 0\<close> the taxable amount is
  \<open>max 0 (g - exemption)\<close>: the exemption is taken off that holding's own gain.  It is
  not taken off once from the sum of the long-term gains: with two such holdings, each
  gaining \<open>g\<close>, the taxable amounts of \<open>calculateTax\<close> add up to \<open>2 * max 0 (g -
  exemption)\<close>, and the total liability is that amount at the long-term equity rate.
\<close>

theorem per_holding_exemption:
  assumes "long_term_equity_gain h1 g" and "long_term_equity_gain h2 g"
  shows "taxableAmount (calculateHoldingTax h1 cfg)
           = max 0 (g - longTermEquityExemption cfg) \<and>
         (let cfg' = getTaxConfig fy tax_config;
              s = calculateTax u fy [h1, h2] tax_config
          in sum_list (map taxableAmount (calculations s))
               = 2 * max 0 (g - longTermEquityExemption cfg') \<and>
             totalTaxLiability s
               = (2 * max 0 (g - longTermEquityExemption cfg') * longTermEquityRate cfg')
                   / 100 \<and>
             totalLongTermGains s = 2 * g)"
  using assms[unfolded long_term_equity_gain_def]
  by (simp add: calculateHoldingTax_long_term_equity[OF assms(1)]
      calculateHoldingTax_long_term_equity[OF assms(2)] calculateTax_def Let_def)

theorem per_holding_exemption_witness:
  "long_term_equity_gain (infy_lot ''h3'') 150000 \<and>
   taxableAmount (calculateHoldingTax (infy_lot ''h3'') (default_config 2025)) = 50000 \<and>
   sum_list (map taxableAmount
     (calculations (calculateTax ''u1'' 2025 [infy_lot ''h3'', infy_lot ''h4''] [])))
     = 100000 \<and>
   totalTaxLiability (calculateTax ''u1'' 2025 [infy_lot ''h3'', infy_lot ''h4''] [])
     = 10000 \<and>
   max 0 (2 * 150000 - longTermEquityExemption (default_config 2025)) = 200000"
proof -
  have a: "long_term_equity_gain (infy_lot ''h3'') 150000"
    and b: "long_term_equity_gain (infy_lot ''h4'') 150000"
    by (simp_all add: long_term_equity_gain_def infy_lot_def)
  have c: "getTaxConfig 2025 [] = default_config 2025"
    by (simp add: getTaxConfig_def)
  show ?thesis
    using per_holding_exemption[OF a b, of "default_config 2025" 2025 "[]" "''u1''"] a
    by (simp add: c Let_def default_config_def)
qed

lemma loss_rate_zero:
  "gainLoss (calculateHoldingTax h cfg) \<le> 0 \<Longrightarrow> taxRate (calculateHoldingTax h cfg) = 0"
  by (auto simp: calculateHoldingTax_def Let_def split: if_splits)

lemma recommend_zero_rate:
  "taxRate calc = 0 \<Longrightarrow> taxSavings (recommend u fy render s calc) = 0"
  by (simp add: recommend_def Let_def)

text \<open>
  \<open>calculateHoldingTax\<close> assigns a rate only in its branch for a gain, so the
  calculation of a loss-making holding carries the rate 0, and every recommendation that
  \<open>generateRecommendations\<close> returns has \<open>taxSavings = 0\<close>.
\<close>

lemma savings_always_zero:
  "list_all (\<lambda>r. taxSavings r = 0) (generateRecommendations u fy render hs tax_config)"
proof -
  have "taxSavings (recommend u fy render s calc) = 0"
    if mem: "calc \<in> set (calculations (calculateTax u fy hs tax_config))"
      and neg: "gainLoss calc < 0"
    for calc s
  proof -
    obtain h where "calc = calculateHoldingTax h (getTaxConfig fy tax_config)"
      using mem by (auto simp: calculations_calculateTax)
    then have "taxRate calc = 0"
      using neg loss_rate_zero[of h] by simp
    then show ?thesis by (rule recommend_zero_rate)
  qed
  then show ?thesis
    by (auto simp: generateRecommendations_def Let_def list_all_iff)
qed

text \<open>
  Claim C9 says that the estimated \<open>taxSavings\<close> of a loss-making holding is the smaller
  of its loss and the net gain of its bucket, times the holding's own tax rate.  With
  RELIANCE (short-term stock, loss 2000) next to TCS (short-term stock, gain 5000) the
  short-term bucket has a net gain of 3000 and the short-term equity rate is 15 per
  cent, so the savings would be 300; the engine returns 0, and a priority score of 1
  without the bonus for positive savings.
\<close>

theorem loss_savings_zero:
  "netShortTermGains (calculateTax ''u1'' 2025 [reliance, tcs] []) = 3000 \<and>
   shortTermEquityRate (getTaxConfig 2025 []) = 15 \<and>
   map potentialLoss (generateRecommendations ''u1'' 2025 render [reliance, tcs] []) = [2000] \<and>
   map taxSavings (generateRecommendations ''u1'' 2025 render [reliance, tcs] []) = [0] \<and>
   map priorityScore (generateRecommendations ''u1'' 2025 render [reliance, tcs] []) = [1]"
  by (simp add: generateRecommendations_def calculateTax_def getTaxConfig_def
      default_config_def calculateHoldingTax_def reliance_def tcs_def recommend_def Let_def
      floor_eq_iff)

section \<open>Wash-sale guard\<close>

lemma filter_conj_single:
  assumes "filter P xs = [s]"
  shows "filter (\<lambda>t. P t \<and> R t) xs = (if R s then [s] else [])"
proof -
  have "filter (\<lambda>t. P t \<and> R t) xs = filter R (filter P xs)"
    by (simp add: conj_commute)
  then show ?thesis using assms by simp
qed

lemma ceil_days_whole: "ceil_days (n * ms_per_day) = n"
  by (simp add: ceil_days_def ms_per_day_def)

lemma recent_sells_of_single:
  assumes "filter (\<lambda>t. t_user_id t = u \<and> t_asset_symbol t = smb) txns = [s]"
  shows "filter (\<lambda>t. t_user_id t = u \<and> t_asset_symbol t = smb \<and> t_type t = Sell \<and>
                       lo \<le> t_transaction_date t \<and> t_transaction_date t \<le> hi) txns
         = (if t_type s = Sell \<and> lo \<le> t_transaction_date s \<and> t_transaction_date s \<le> hi
            then [s] else [])"
  using filter_conj_single[OF assms,
      of "\<lambda>t. t_type t = Sell \<and> lo \<le> t_transaction_date t \<and> t_transaction_date t \<le> hi"]
  by simp

text \<open>
  What the check computes on a table that has the column \<open>type\<close>, as the rows of the
  service's test have: for a user whose only transaction in a symbol is a sale, a
  purchase \<open>j\<close> whole days after it, \<open>0 \<le> j \<le> 30\<close>, has \<open>30 - j\<close> days remaining and is
  a wash sale exactly when that is positive; a later one finds no sale.
\<close>

lemma checkWashSale_single_sell:
  assumes cols: "columns_exist cols [''user_id'', ''asset_symbol'', ''type'', ''transaction_date'']"
    and only: "filter (\<lambda>t. t_user_id t = u \<and> t_asset_symbol t = smb) txns = [s]"
    and sell: "t_type s = Sell"
  shows "checkWashSale cols u smb (Some (add_days (t_transaction_date s) j)) now txns =
      Inr (if 0 \<le> j \<and> j \<le> 30 then
         \<lparr> isWashSale = (0 < 30 - j), recentSellDate = Some (t_transaction_date s),
           canBuyBackAfter = Some (add_days (t_transaction_date s) 30),
           daysRemaining = max 0 (30 - j), sellPrice = Some (t_price s),
           warning = (if 0 < 30 - j then Some (t_transaction_date s, 30 - j) else None) \<rparr>
       else \<lparr> isWashSale = False, recentSellDate = None, canBuyBackAfter = None,
              daysRemaining = 0, sellPrice = None, warning = None \<rparr>)"
proof -
  have d: "add_days (t_transaction_date s) 30 - add_days (t_transaction_date s) j
             = (30 - j) * ms_per_day"
    by (simp add: add_days_def algebra_simps)
  have w: "(add_days (add_days (t_transaction_date s) j) (- 30) \<le> t_transaction_date s \<and>
            t_transaction_date s \<le> add_days (t_transaction_date s) j)
             = (0 \<le> j \<and> j \<le> 30)"
    by (auto simp: add_days_def ms_per_day_def)
  show ?thesis
    unfolding checkWashSale_def Let_def WASH_SALE_DAYS_def
    by (simp add: cols recent_sells_of_single[OF only] sell w d ceil_days_whole)
qed

lemma wash_sale_with_type_column:
  "checkWashSale (''type'' # transactions_columns) ''u1'' ''TCS'' (Some (15 * ms_per_day)) 0
     [tcs_sale]
     = Inr \<lparr> isWashSale = True, recentSellDate = Some 0,
             canBuyBackAfter = Some (30 * ms_per_day), daysRemaining = 15,
             sellPrice = Some 3500, warning = Some (0, 15) \<rparr>"
proof -
  have cols: "columns_exist (''type'' # transactions_columns)
                [''user_id'', ''asset_symbol'', ''type'', ''transaction_date'']"
    by (simp add: columns_exist_def transactions_columns_def)
  have only: "filter (\<lambda>t. t_user_id t = ''u1'' \<and> t_asset_symbol t = ''TCS'') [tcs_sale]
                = [tcs_sale]"
    and sell: "t_type tcs_sale = Sell"
    and date: "t_transaction_date tcs_sale = 0"
    and price: "t_price tcs_sale = 3500"
    by (simp_all add: tcs_sale_def)
  show ?thesis
    using checkWashSale_single_sell[OF cols only sell, of 15 0]
    by (simp add: date price add_days_def)
qed

text \<open>
  On the table as \<open>schema.sql\<close> creates it the query is refused for every input: the
  column that holds buy or sell is \<open>transaction_type\<close>, and there is no column \<open>type\<close>.
\<close>

lemma wash_sale_query_refused:
  "checkWashSale transactions_columns u smb proposedBuyDate now txns
     = Inl FailedToCheckWashSale"
  by (simp add: checkWashSale_def columns_exist_def transactions_columns_def Let_def)

text \<open>
  Claim C8 says that for a user who sold a symbol on day 0, and has no other transaction
  in it, the forward check with a proposed purchase on day 15 returns \<open>isWashSale = true\<close>
  and \<open>daysRemaining = 15\<close>, and with a proposed purchase on day 31 returns \<open>isWashSale =
  false\<close>.  On the store of the repository, with the sale of TCS on day 0 as the only
  transaction, both checks throw "Failed to check wash sale" and return nothing.
\<close>

theorem wash_sale_check_throws:
  "t_type tcs_sale = Sell \<and> t_transaction_date tcs_sale = 0 \<and>
   checkWashSale transactions_columns ''u1'' ''TCS'' (Some (15 * ms_per_day)) 0 [tcs_sale]
     = Inl FailedToCheckWashSale \<and>
   checkWashSale transactions_columns ''u1'' ''TCS'' (Some (31 * ms_per_day)) 0 [tcs_sale]
     = Inl FailedToCheckWashSale"
  by (simp add: checkWashSale_def columns_exist_def transactions_columns_def Let_def
      tcs_sale_def)

section \<open>Recommendation lifecycle and executor\<close>

lemma no_pending_row:
  assumes "list_all (\<lambda>st. st \<noteq> Pending) (statuses_of rid d)"
  shows "filter (\<lambda>r. r_recommendation_id r = rid \<and> r_user_id r = u \<and> r_status r = Pending)
           (tax_recommendations d) = []"
  using assms
  by (auto simp: statuses_of_def list_all_iff filter_empty_conv)

lemma statuses_after_accept:
  "list_all (\<lambda>st. st \<noteq> Pending)
     (map r_status (filter (\<lambda>r. r_recommendation_id r = rid)
        (map (\<lambda>r. if r_recommendation_id r = rid
                  then r\<lparr> r_status := Accepted, r_executed_at := e \<rparr> else r) rs)))"
  by (induction rs) auto

text \<open>
  A successful execution leaves no recommendation of that id pending, so the hypothesis
  of the next theorem holds for the second attempt.
\<close>

lemma execute_steps_marks_accepted:
  assumes "execute_steps u rid now new_id d = Inr (res, d')"
  shows "list_all (\<lambda>st. st \<noteq> Pending) (statuses_of rid d')"
  using assms statuses_after_accept
  by (auto simp: execute_steps_def Let_def statuses_of_def split: list.splits)

lemma executed_db_rows:
  "executed_db =
     \<lparr> holdings = [],
       transactions =
         [\<lparr> t_transaction_id = ''t1'', t_user_id = ''u1'', t_holding_id = None,
            t_asset_type = Stock, t_asset_symbol = ''RELIANCE'', t_type = Buy,
            t_quantity = 10, t_price = 2500, t_transaction_date = 0,
            t_platform = None, t_notes = None \<rparr>,
          \<lparr> t_transaction_id = ''t2'', t_user_id = ''u1'', t_holding_id = None,
            t_asset_type = Stock, t_asset_symbol = ''RELIANCE'', t_type = Sell,
            t_quantity = 10, t_price = 2300, t_transaction_date = 0,
            t_platform = Some ''tlh_execution'',
            t_notes = Some ''Tax loss harvesting: Executed via TaxSaver'' \<rparr>],
       tax_recommendations =
         [\<lparr> r_recommendation_id = ''r1'', r_user_id = ''u1'', r_holding_id = None,
            r_quantity = 10, r_current_price = 2300, r_notes = None,
            r_status = Accepted, r_executed_at = Some 1000 \<rparr>] \<rparr>"
  by (simp add: executed_db_def executeRecommendation_def execute_steps_def example_db_def
      delete_holding_def update_quantity_def date_of_def ms_per_day_def Let_def)

text \<open>
  Claim C1.  When the recommendation of an id is no longer pending (it has been
  executed), a call of \<open>executeRecommendation\<close> for that id returns the error
  "Recommendation not found or already executed" and the store is the store before the
  call: the holdings and the transactions are unchanged, so no sale is inserted, no
  quantity changes and no holding is deleted.
\<close>

theorem execute_twice_rejected:
  assumes "list_all (\<lambda>st. st \<noteq> Pending) (statuses_of rid d)"
  shows "executeRecommendation u rid now new_id d
           = (Inl RecommendationNotFoundOrAlreadyExecuted, d)"
  by (simp add: executeRecommendation_def execute_steps_def no_pending_row[OF assms])

theorem execute_twice_rejected_witness:
  "statuses_of ''r1'' executed_db = [Accepted] \<and>
   executeRecommendation ''u1'' ''r1'' 2000 ''t3'' executed_db
     = (Inl RecommendationNotFoundOrAlreadyExecuted, executed_db)"
proof -
  have s: "statuses_of ''r1'' executed_db = [Accepted]"
    by (simp add: executed_db_rows statuses_of_def)
  then have "list_all (\<lambda>st. st \<noteq> Pending) (statuses_of ''r1'' executed_db)"
    by simp
  from execute_twice_rejected[OF this] s show ?thesis by simp
qed

text \<open>
  The two mutations the claim C2 is right about: an execution, and the reversal of a sale
  of a quantity that is not negative, keep every holding's quantity at 0 or above.
\<close>

lemma execute_preserves_quantities:
  assumes "quantities_nonneg d"
  shows "quantities_nonneg (snd (executeRecommendation u rid now new_id d))"
proof (cases "execute_steps u rid now new_id d")
  case (Inl e)
  then show ?thesis using assms by (simp add: executeRecommendation_def)
next
  case (Inr p)
  obtain res d' where p: "p = (res, d')" by (cases p)
  have "quantities_nonneg d'"
    using Inr[unfolded p] assms
    by (auto simp: execute_steps_def Let_def quantities_nonneg_def delete_holding_def
        update_quantity_def list_all_iff split: list.splits if_splits)
  then show ?thesis using Inr p by (simp add: executeRecommendation_def)
qed

lemma reverse_sell_preserves_quantities:
  assumes "quantities_nonneg d"
    and "list_all (\<lambda>t. t_type t = Sell \<and> 0 \<le> t_quantity t)
           (filter (\<lambda>t. t_transaction_id t = tid \<and> t_user_id t = u) (transactions d))"
  shows "quantities_nonneg (snd (reverseTransaction u tid d))"
proof (cases "reverse_steps u tid d")
  case (Inl e)
  then show ?thesis using assms by (simp add: reverseTransaction_def)
next
  case (Inr d')
  have "quantities_nonneg d'"
  proof (cases "filter (\<lambda>t. t_transaction_id t = tid \<and> t_user_id t = u) (transactions d)")
    case Nil
    then show ?thesis using Inr by (simp add: reverse_steps_def)
  next
    case (Cons txn rest)
    then have sell: "t_type txn = Sell" and q: "0 \<le> t_quantity txn"
      using assms(2) by simp_all
    show ?thesis
      using Inr assms(1) sell q Cons
      by (auto simp: reverse_steps_def Let_def quantities_nonneg_def
          update_quantity_def list_all_iff split: option.splits if_splits)
  qed
  then show ?thesis using Inr by (simp add: reverseTransaction_def)
qed

text \<open>
  Claim C2 says that every operation that changes a holding keeps its quantity at 0 or
  above, a holding that would reach 0 or below being deleted.  The reversal of a purchase
  subtracts the purchased quantity with no check and no deletion.  From a store with one
  holding of 10 units and the purchase of these 10, reversing the purchase leaves the
  holding stored with quantity 0; nothing marks the purchase as spent, so reversing it
  again succeeds and stores the quantity -10.
\<close>

theorem reverse_buy_goes_negative:
  "quantities_nonneg example_db \<and>
   fst (reverseTransaction ''u1'' ''t1'' example_db) = Inr () \<and>
   map h_quantity (holdings (snd (reverseTransaction ''u1'' ''t1'' example_db))) = [0] \<and>
   fst (reverseTransaction ''u1'' ''t1'' (snd (reverseTransaction ''u1'' ''t1'' example_db)))
     = Inr () \<and>
   map h_quantity (holdings (snd (reverseTransaction ''u1'' ''t1''
       (snd (reverseTransaction ''u1'' ''t1'' example_db))))) = [- 10] \<and>
   \<not> quantities_nonneg (snd (reverseTransaction ''u1'' ''t1''
       (snd (reverseTransaction ''u1'' ''t1'' example_db))))"
  by (simp add: example_db_def reverseTransaction_def reverse_steps_def update_quantity_def
      quantities_nonneg_def Let_def)

text \<open>
  \<open>updateRecommendationStatus\<close> succeeds whenever the user owns a recommendation of the
  id, whatever its status is.
\<close>

lemma update_status_succeeds:
  assumes "list_ex (\<lambda>r. r_recommendation_id r = rid \<and> r_user_id r = u)
             (tax_recommendations d)"
  shows "fst (updateRecommendationStatus rid u st d) = Inr ()"
proof -
  have "filter (\<lambda>r. r_recommendation_id r = rid \<and> r_user_id r = u)
          (tax_recommendations d) \<noteq> []"
    using assms by (auto simp: list_ex_iff filter_empty_conv)
  then show ?thesis
    by (simp add: updateRecommendationStatus_def Let_def)
qed

text \<open>
  Claim C3 says that a recommendation in a terminal state never changes its status
  again, and that \<open>updateRecommendationStatus\<close> succeeds only on a pending one.  Its UPDATE
  selects by id and user and has no condition on the status: on the store in which the
  recommendation has been executed (accepted, with its execution time), the update to
  rejected succeeds and the stored status becomes rejected.
\<close>

theorem status_update_ignores_current_status:
  "statuses_of ''r1'' executed_db = [Accepted] \<and>
   fst (updateRecommendationStatus ''r1'' ''u1'' Rejected executed_db) = Inr () \<and>
   statuses_of ''r1'' (snd (updateRecommendationStatus ''r1'' ''u1'' Rejected executed_db))
     = [Rejected]"
  by (simp add: executed_db_rows statuses_of_def updateRecommendationStatus_def Let_def)

end
